theory Spec2Isabelle
  imports Complex_Main "HOL-Library.Finite_Map" "HOL-Library.Multiset"
    "HOL-Library.Char_ord" "HOL-Library.List_Lexorder"
begin

section \<open>The retrieval engine of the ParallelIR notebook\<close>

text \<open>
  The executable part of the repository is the notebook
  \<^verbatim>\<open>notebooks/information-retrieval.ipynb\<close>. Its retrieval core is three cells:
  the construction of the TF-IDF index, the function \<^verbatim>\<open>retrieve_with_cache\<close> with
  its dictionary \<^verbatim>\<open>query_cache\<close>, and the cells that save and load these objects.
  The notebook keeps everything in global variables; the model passes them around as one
  record. What the notebook takes from scikit-learn and NumPy (the floating-point
  arithmetic of the similarity, the order \<^verbatim>\<open>np.argsort\<close> gives to equal values, the
  fitting of the vectorizer) is not code of the repository: these are parameters of the
  model, and the theorems hold for every value of them unless a hypothesis says otherwise.
\<close>

subsection \<open>Data\<close>

text \<open>
  Scores and matrix entries are floating-point numbers; each is a real number, and the
  model computes with none of them, it only compares them.
\<close>

type_synonym vec = "real list"
type_synonym matrix = "vec list"

text \<open>A ranked result is the list of pairs \<^verbatim>\<open>(doc_ids[i], cos_sim[i])\<close>.\<close>

type_synonym ranked = "(string \<times> real) list"

text \<open>
  The exceptions that can be raised: \<^verbatim>\<open>ValueError\<close> from the input validation of
  scikit-learn, \<^verbatim>\<open>IndexError\<close> from an index out of range, \<^verbatim>\<open>NotFittedError\<close> from
  \<^verbatim>\<open>transform\<close> on a vectorizer that has not been fitted.
\<close>

datatype error = ValueError | IndexError | NotFittedError

text \<open>
  A \<^verbatim>\<open>TfidfVectorizer\<close> object is used only through \<^verbatim>\<open>transform([text])\<close>: it is the
  function from a text to its row vector, or to the exception raised.
\<close>

type_synonym vectorizer = "string \<Rightarrow> error + vec"

text \<open>
  The global variables of the notebook. The sparse matrix \<^verbatim>\<open>tfidf_matrix\<close> is the list of
  its rows, one per document; the dictionary \<^verbatim>\<open>query_cache\<close> is a finite map. The field
  \<open>scorer_calls\<close> is not a variable of the notebook: it is a probe that counts how often
  the scoring path of \<^verbatim>\<open>retrieve_with_cache\<close> has run to completion.
\<close>

record ir_state =
  docs :: "string list"
  doc_ids :: "string list"
  tfidf_vectorizer :: vectorizer
  tfidf_matrix :: matrix
  query_cache :: "(string, ranked) fmap"
  scorer_calls :: nat

subsection \<open>The library functions the notebook calls\<close>

text \<open>
  The three parameters. \<open>similarity\<close> is the floating-point value that
  \<^verbatim>\<open>cosine_similarity\<close> computes for one row of each argument. \<open>argsort_fn\<close> is
  \<^verbatim>\<open>np.argsort\<close>. \<open>fit_transform_fn\<close> is \<^verbatim>\<open>TfidfVectorizer(...).fit_transform(docs)\<close>: it
  gives the fitted vectorizer and the matrix, or the exception raised together with the
  vectorizer object as the failed call leaves it.
\<close>

type_synonym similarity = "vec \<Rightarrow> vec \<Rightarrow> real"
type_synonym argsort_fn = "real list \<Rightarrow> nat list"
type_synonym fit_transform_fn = "string list \<Rightarrow> (error \<times> vectorizer) + (vectorizer \<times> matrix)"

text \<open>
  \<^verbatim>\<open>sklearn.metrics.pairwise.cosine_similarity(X, Y)\<close> validates its arguments (both need
  at least one row and one column, and the same number of columns, else \<^verbatim>\<open>ValueError\<close>)
  and returns the matrix of the similarities of the rows of \<open>X\<close> with the rows of \<open>Y\<close>.
\<close>

definition shape_ok :: "matrix \<Rightarrow> matrix \<Rightarrow> bool" where
  "shape_ok X Y \<longleftrightarrow>
     X \<noteq> [] \<and> Y \<noteq> [] \<and> 0 < length (hd X) \<and> list_all (\<lambda>r. length r = length (hd X)) (X @ Y)"

definition cosine_similarity :: "similarity \<Rightarrow> matrix \<Rightarrow> matrix \<Rightarrow> error + matrix" where
  "cosine_similarity sim X Y =
     (if shape_ok X Y then Inr (map (\<lambda>x. map (\<lambda>y. sim x y) Y) X) else Inl ValueError)"

text \<open>\<^verbatim>\<open>ndarray.flatten()\<close>: the rows of the matrix one after the other.\<close>

definition flatten :: "matrix \<Rightarrow> real list" where
  "flatten m = concat m"

text \<open>
  What NumPy promises of \<^verbatim>\<open>np.argsort(a)\<close>: the indices of \<open>a\<close>, each once, in ascending
  order of the values. The order among equal values is not promised (the default sort is
  not stable).
\<close>

definition valid_argsort :: "argsort_fn \<Rightarrow> bool" where
  "valid_argsort argsort \<longleftrightarrow>
     (\<forall>a. distinct (argsort a) \<and> set (argsort a) = {0..<length a} \<and>
          sorted (map (\<lambda>i. a ! i) (argsort a)))"

text \<open>
  The slice \<^verbatim>\<open>a[:k]\<close>: the first \<open>k\<close> elements, and for a negative \<open>k\<close> all but the last
  \<open>-k\<close> elements. No \<open>k\<close> raises.
\<close>

definition slice_to :: "int \<Rightarrow> 'a list \<Rightarrow> 'a list" where
  "slice_to k xs = (if 0 \<le> k then take (nat k) xs else take (length xs - nat (- k)) xs)"

subsection \<open>Retrieval with the cache\<close>

text \<open>
  The comprehension \<^verbatim>\<open>[(doc_ids[i], cos_sim[i]) for i in top_doc_indices]\<close>. An index
  beyond the end of either sequence raises; the indices are never negative.
\<close>

definition pair_up :: "string list \<Rightarrow> real list \<Rightarrow> nat list \<Rightarrow> error + ranked" where
  "pair_up ids cos_sim top_doc_indices =
     (if list_all (\<lambda>i. i < length ids \<and> i < length cos_sim) top_doc_indices
      then Inr (map (\<lambda>i. (ids ! i, cos_sim ! i)) top_doc_indices)
      else Inl IndexError)"

text \<open>
  \<^verbatim>\<open>retrieve_with_cache(query_text, top_k=10)\<close>. The store into \<^verbatim>\<open>query_cache\<close> is the last
  statement before the return, so a raised exception leaves the globals as they were and
  an error carries no state.
\<close>

definition retrieve_with_cache ::
  "similarity \<Rightarrow> argsort_fn \<Rightarrow> string \<Rightarrow> int \<Rightarrow> ir_state \<Rightarrow> error + (ranked \<times> ir_state)" where
  "retrieve_with_cache sim argsort query_text top_k s =
     (case fmlookup (query_cache s) query_text of
        Some cached \<Rightarrow> Inr (cached, s)
      | None \<Rightarrow>
          (case tfidf_vectorizer s query_text of
             Inl e \<Rightarrow> Inl e
           | Inr row \<Rightarrow>
               (let query_vec = [row] in
                case cosine_similarity sim query_vec (tfidf_matrix s) of
                  Inl e \<Rightarrow> Inl e
                | Inr m \<Rightarrow>
                    (let cos_sim = flatten m;
                         top_doc_indices = slice_to top_k (rev (argsort cos_sim)) in
                     case pair_up (doc_ids s) cos_sim top_doc_indices of
                       Inl e \<Rightarrow> Inl e
                     | Inr results \<Rightarrow>
                         Inr (results,
                              s\<lparr>query_cache := fmupd query_text results (query_cache s),
                                scorer_calls := Suc (scorer_calls s)\<rparr>)))))"

subsection \<open>Building the index\<close>

text \<open>
  The cell that builds the index runs four assignments in this order:
  \<^verbatim>\<open>docs = [doc.text for doc in dataset.docs_iter()]\<close>,
  \<^verbatim>\<open>doc_ids = [doc.doc_id for doc in dataset.docs_iter()]\<close>,
  \<^verbatim>\<open>tfidf_vectorizer = TfidfVectorizer(stop_words='english')\<close>,
  \<^verbatim>\<open>tfidf_matrix = tfidf_vectorizer.fit_transform(docs)\<close>.
  The corpus is the list of pairs (doc_id, text). When \<^verbatim>\<open>fit_transform\<close> raises, the
  first three assignments have happened and the old matrix stays: the error comes with
  that state. The cell does not mention \<^verbatim>\<open>query_cache\<close>.
\<close>

definition build_index ::
  "fit_transform_fn \<Rightarrow> (string \<times> string) list \<Rightarrow> ir_state \<Rightarrow> (error \<times> ir_state) + ir_state" where
  "build_index fit_transform corpus s =
     (let new_docs = map snd corpus; new_doc_ids = map fst corpus;
          s1 = s\<lparr>docs := new_docs, doc_ids := new_doc_ids\<rparr> in
      case fit_transform new_docs of
        Inl (e, unfitted) \<Rightarrow> Inl (e, s1\<lparr>tfidf_vectorizer := unfitted\<rparr>)
      | Inr (vectorizer, matrix) \<Rightarrow>
          Inr (s1\<lparr>tfidf_vectorizer := vectorizer, tfidf_matrix := matrix\<rparr>))"

subsection \<open>Notions used in the statements\<close>

text \<open>
  The state can score the query: the vectorizer transforms it, the arguments pass the
  validation of \<open>cosine_similarity\<close>, and there is one identifier per row of the matrix.
  The number of rows is the corpus size.
\<close>

definition scorable :: "ir_state \<Rightarrow> string \<Rightarrow> bool" where
  "scorable s query_text \<longleftrightarrow>
     (case tfidf_vectorizer s query_text of
        Inl e \<Rightarrow> False
      | Inr row \<Rightarrow> shape_ok [row] (tfidf_matrix s)) \<and>
     length (doc_ids s) = length (tfidf_matrix s)"

text \<open>
  The array \<^verbatim>\<open>cos_sim\<close> of a scorable state, the documents of the corpus each with its
  score, and the list the miss path stores.
\<close>

definition scores :: "similarity \<Rightarrow> ir_state \<Rightarrow> string \<Rightarrow> real list" where
  "scores sim s query_text =
     (case tfidf_vectorizer s query_text of
        Inl e \<Rightarrow> []
      | Inr row \<Rightarrow> map (\<lambda>y. sim row y) (tfidf_matrix s))"

definition scored_docs :: "similarity \<Rightarrow> ir_state \<Rightarrow> string \<Rightarrow> ranked" where
  "scored_docs sim s query_text = zip (doc_ids s) (scores sim s query_text)"

definition compute_results :: "similarity \<Rightarrow> argsort_fn \<Rightarrow> ir_state \<Rightarrow> string \<Rightarrow> int \<Rightarrow> ranked" where
  "compute_results sim argsort s query_text top_k =
     map (\<lambda>i. (doc_ids s ! i, scores sim s query_text ! i))
       (slice_to top_k (rev (argsort (scores sim s query_text))))"

text \<open>All documents in the order of the reversed argsort; the miss path stores a slice of it.\<close>

definition full_ranking :: "similarity \<Rightarrow> argsort_fn \<Rightarrow> ir_state \<Rightarrow> string \<Rightarrow> ranked" where
  "full_ranking sim argsort s query_text =
     rev (map (\<lambda>i. (doc_ids s ! i, scores sim s query_text ! i))
            (argsort (scores sim s query_text)))"

text \<open>A ranked result in descending order of score; a cache all of whose entries are.\<close>

definition desc :: "ranked \<Rightarrow> bool" where
  "desc r \<longleftrightarrow> sorted (rev (map snd r))"

definition cache_desc :: "ir_state \<Rightarrow> bool" where
  "cache_desc s \<longleftrightarrow> (\<forall>key r. fmlookup (query_cache s) key = Some r \<longrightarrow> desc r)"

text \<open>
  \<open>r\<close> is a list of the \<open>n\<close> best of the scored documents \<open>all\<close>: it has \<open>n\<close> entries, each
  a document of \<open>all\<close> with its score and none more often than in \<open>all\<close>, in descending
  order of score, and no document left out has a higher score than one listed.
\<close>

definition best_of :: "ranked \<Rightarrow> nat \<Rightarrow> ranked \<Rightarrow> bool" where
  "best_of all n r \<longleftrightarrow>
     length r = n \<and> mset r \<subseteq># mset all \<and> desc r \<and>
     (\<forall>p \<in># mset all - mset r. \<forall>q \<in> set r. snd p \<le> snd q)"

text \<open>A cache in every entry of which no doc_id occurs twice.\<close>

definition cache_distinct :: "ir_state \<Rightarrow> bool" where
  "cache_distinct s \<longleftrightarrow>
     (\<forall>key r. fmlookup (query_cache s) key = Some r \<longrightarrow> distinct (map fst r))"

text \<open>
  The order C3 asks of a ranked result: descending by score, and ascending by doc_id among
  equal scores. Identifiers compare as Python strings do, character by character.
\<close>

definition ranked_order :: "ranked \<Rightarrow> bool" where
  "ranked_order r \<longleftrightarrow> sorted_wrt (\<lambda>(i, x) (j, y). y < x \<or> (x = y \<and> i < j)) r"

text \<open>
  A document shares a term with the query when some column is non-zero in both vectors:
  a TF-IDF weight is non-zero exactly where the term occurs in the text.
\<close>

definition shares_term :: "vec \<Rightarrow> vec \<Rightarrow> bool" where
  "shares_term query_vec row \<longleftrightarrow> list_ex (\<lambda>(a, b). a \<noteq> 0 \<and> b \<noteq> 0) (zip query_vec row)"

subsection \<open>Values of the parameters for the examples\<close>

text \<open>
  The examples run on corpora whose documents are the one-word texts \<^verbatim>\<open>cat\<close> and
  \<^verbatim>\<open>dog\<close>, with the queries \<^verbatim>\<open>cat\<close>, \<^verbatim>\<open>dog\<close> and \<^verbatim>\<open>zebra\<close>. There every row is a unit
  vector or zero, every similarity is exactly 1 or 0, and every score array has two
  entries. The definitions of this subsection give the parameters the values the libraries
  compute on these inputs, worked out by hand; they are used in the examples only and say
  nothing about other inputs.
\<close>

text \<open>The cosine of two rows in exact arithmetic, a zero row left as it is.\<close>

definition row_norm :: "vec \<Rightarrow> real" where
  "row_norm x = sqrt (sum_list (map (\<lambda>v. v * v) x))"

definition normalize :: "vec \<Rightarrow> vec" where
  "normalize x = (let n = row_norm x in map (\<lambda>v. v / (if n = 0 then 1 else n)) x)"

definition dot :: "vec \<Rightarrow> vec \<Rightarrow> real" where
  "dot x y = sum_list (map2 (*) x y)"

definition exact_sim :: similarity where
  "exact_sim x y = dot (normalize x) (normalize y)"

text \<open>The argsort that keeps equal values in ascending order of index.\<close>

definition stable_argsort :: argsort_fn where
  "stable_argsort a = sort_key (\<lambda>i. a ! i) [0..<length a]"

text \<open>
  The fitted vectorizers: with both words in the corpus the columns are (cat, dog), with
  only \<^verbatim>\<open>cat\<close> there is one column; a text without a word of the vocabulary has the zero
  row.
\<close>

definition vec_cat_dog :: vectorizer where
  "vec_cat_dog t = Inr (if t = ''cat'' then [1, 0] else if t = ''dog'' then [0, 1] else [0, 0])"

definition vec_cat :: vectorizer where
  "vec_cat t = Inr (if t = ''cat'' then [1] else [0])"

text \<open>\<^verbatim>\<open>fit_transform\<close> on a corpus of documents \<^verbatim>\<open>cat\<close> and \<^verbatim>\<open>dog\<close>, and on one of \<^verbatim>\<open>cat\<close> only.\<close>

definition fit_transform_cat_dog :: fit_transform_fn where
  "fit_transform_cat_dog ds =
     Inr (vec_cat_dog, map (\<lambda>d. if d = ''cat'' then [1, 0] else [0, 1]) ds)"



text \<open>The corpus d1 = cat, d2 = dog, indexed, with an empty cache.\<close>

definition demo_state :: ir_state where
  "demo_state =
     \<lparr>docs = [''cat'', ''dog''], doc_ids = [''d1'', ''d2''], tfidf_vectorizer = vec_cat_dog,
      tfidf_matrix = [[1, 0], [0, 1]], query_cache = fmempty, scorer_calls = 0\<rparr>"

text \<open>The same state after \<^verbatim>\<open>retrieve_with_cache("cat", 1)\<close>.\<close>

definition demo_state_cat :: ir_state where
  "demo_state_cat =
     demo_state\<lparr>query_cache := fmupd ''cat'' [(''d1'', 1)] fmempty, scorer_calls := 1\<rparr>"

text \<open>The corpus d1 = cat, d2 = cat: two documents with the same text.\<close>

definition twin_state :: ir_state where
  "twin_state =
     \<lparr>docs = [''cat'', ''cat''], doc_ids = [''d1'', ''d2''], tfidf_vectorizer = vec_cat,
      tfidf_matrix = [[1], [1]], query_cache = fmempty, scorer_calls = 0\<rparr>"

text \<open>
  The state \<open>demo_state_cat\<close> after the index has been rebuilt from the corpus
  d7 = dog, d8 = cat.
\<close>

definition rebuilt_state :: ir_state where
  "rebuilt_state =
     \<lparr>docs = [''dog'', ''cat''], doc_ids = [''d7'', ''d8''], tfidf_vectorizer = vec_cat_dog,
      tfidf_matrix = [[0, 1], [1, 0]], query_cache = fmupd ''cat'' [(''d1'', 1)] fmempty,
      scorer_calls = 1\<rparr>"


section \<open>Basic facts\<close>

lemmas eval_defs =
  retrieve_with_cache_def cosine_similarity_def shape_ok_def exact_sim_def normalize_def
  row_norm_def dot_def flatten_def stable_argsort_def slice_to_def pair_up_def upt_rec
  demo_state_def demo_state_cat_def twin_state_def vec_cat_dog_def vec_cat_def

subsection \<open>The library functions\<close>

lemma stable_argsort_valid: "valid_argsort stable_argsort"
  by (simp add: valid_argsort_def stable_argsort_def)

lemma length_argsort: "valid_argsort argsort \<Longrightarrow> length (argsort a) = length a"
proof -
  assume v: "valid_argsort argsort"
  then have "distinct (argsort a)" and "set (argsort a) = {0..<length a}"
    by (simp_all add: valid_argsort_def)
  then have "card {0..<length a} = length (argsort a)"
    using distinct_card by metis
  then show ?thesis by simp
qed

lemma mset_argsort:
  assumes "valid_argsort argsort"
  shows "mset (argsort a) = mset [0..<length a]"
proof -
  have d: "distinct (argsort a)" and s: "set (argsort a) = {0..<length a}"
    using assms by (simp_all add: valid_argsort_def)
  have "mset_set (set (argsort a)) = mset (argsort a)" using d by (rule mset_set_set)
  then show ?thesis by (simp add: s)
qed

lemma set_slice_to: "set (slice_to k xs) \<subseteq> set xs"
  by (auto simp: slice_to_def dest: in_set_takeD)

lemma distinct_slice_to: "distinct xs \<Longrightarrow> distinct (slice_to k xs)"
  by (simp add: slice_to_def)

lemma length_slice_to_nonneg: "0 \<le> k \<Longrightarrow> length (slice_to k xs) = min (nat k) (length xs)"
  by (simp add: slice_to_def)

lemma length_slice_to_neg: "k < 0 \<Longrightarrow> length (slice_to k xs) = length xs - nat (- k)"
  by (simp add: slice_to_def)

lemma map_slice_to: "map f (slice_to k xs) = slice_to k (map f xs)"
  by (simp add: slice_to_def take_map)

lemma slice_to_take: "\<exists>m. slice_to k xs = take m xs \<and> m \<le> length xs"
proof (cases "0 \<le> k")
  case True
  then have "slice_to k xs = take (min (nat k) (length xs)) xs"
    by (simp add: slice_to_def min_def)
  then show ?thesis by (metis min.cobounded2)
next
  case False
  then have "slice_to k xs = take (length xs - nat (- k)) xs" by (simp add: slice_to_def)
  then show ?thesis by (metis diff_le_self)
qed

lemma top_in_range:
  "valid_argsort argsort \<Longrightarrow> i \<in> set (slice_to k (rev (argsort a))) \<Longrightarrow> i < length a"
  using set_slice_to [of k "rev (argsort a)"] by (auto simp: valid_argsort_def)

subsection \<open>Scores\<close>

lemma length_scores:
  "scorable s q \<Longrightarrow> length (scores sim s q) = length (tfidf_matrix s)"
  by (auto simp: scorable_def scores_def split: sum.splits)

lemma length_scored_docs:
  "scorable s q \<Longrightarrow> length (scored_docs sim s q) = length (tfidf_matrix s)"
  by (simp add: scored_docs_def length_scores scorable_def)


lemma gather_indices:
  assumes "length ids = length sc"
  shows "map (\<lambda>i. (ids ! i, sc ! i)) [0..<length sc] = zip ids sc"
  using assms by (intro nth_equalityI) simp_all

lemma mset_gather_argsort:
  assumes "valid_argsort argsort" and "length ids = length sc"
  shows "mset (map (\<lambda>i. (ids ! i, sc ! i)) (argsort sc)) = mset (zip ids sc)"
proof -
  have "mset (map (\<lambda>i. (ids ! i, sc ! i)) (argsort sc)) =
        mset (map (\<lambda>i. (ids ! i, sc ! i)) [0..<length sc])"
    using mset_argsort [OF assms(1), of sc] by (metis mset_map)
  then show ?thesis by (simp only: gather_indices [OF assms(2)])
qed

lemma desc_gather_argsort:
  assumes "valid_argsort argsort"
  shows "sorted (map snd (map (\<lambda>i. (ids ! i, sc ! i)) (argsort sc)))"
  using assms by (simp add: valid_argsort_def comp_def)

subsection \<open>The ranking\<close>

lemma desc_iff: "desc r \<longleftrightarrow> sorted_wrt (\<lambda>p q. snd q \<le> snd p) r"
  by (simp add: desc_def sorted_wrt_rev sorted_wrt_map)

lemma compute_results_slice:
  "compute_results sim argsort s q k = slice_to k (full_ranking sim argsort s q)"
  by (simp add: compute_results_def full_ranking_def map_slice_to rev_map)

lemma mset_full_ranking:
  assumes "valid_argsort argsort" and "scorable s q"
  shows "mset (full_ranking sim argsort s q) = mset (scored_docs sim s q)"
proof -
  have "length (doc_ids s) = length (scores sim s q)"
    using assms(2) by (simp add: length_scores scorable_def)
  from mset_gather_argsort [OF assms(1) this]
  show ?thesis by (simp add: full_ranking_def scored_docs_def)
qed

lemma length_full_ranking:
  assumes "valid_argsort argsort" and "scorable s q"
  shows "length (full_ranking sim argsort s q) = length (tfidf_matrix s)"
  using assms by (simp add: full_ranking_def length_argsort length_scores)

lemma desc_full_ranking:
  assumes "valid_argsort argsort"
  shows "desc (full_ranking sim argsort s q)"
  using desc_gather_argsort [OF assms, of "doc_ids s" "scores sim s q"]
  by (simp add: desc_def full_ranking_def rev_map)

lemma desc_take: "desc r \<Longrightarrow> desc (take m r)"
  unfolding desc_iff by (rule sorted_wrt_take)

lemma desc_slice_to: "desc r \<Longrightarrow> desc (slice_to k r)"
  by (simp add: slice_to_def desc_take)

lemma best_of_take:
  assumes "desc R" and "mset R = mset all" and "m \<le> length R"
  shows "best_of all m (take m R)"
proof -
  have split: "R = take m R @ drop m R" by simp
  have "sorted_wrt (\<lambda>p q. snd q \<le> snd p) (take m R @ drop m R)"
    using assms(1) by (simp add: desc_iff)
  then have below: "\<forall>q \<in> set (take m R). \<forall>p \<in> set (drop m R). snd p \<le> snd q"
    unfolding sorted_wrt_append by blast
  have "mset R = mset (take m R) + mset (drop m R)"
    by (metis split mset_append)
  then have rest: "mset all - mset (take m R) = mset (drop m R)"
    and sub: "mset (take m R) \<subseteq># mset all"
    using assms(2) by simp_all
  have "\<forall>p \<in># mset all - mset (take m R). \<forall>q \<in> set (take m R). snd p \<le> snd q"
    using below by (simp add: rest)
  then show ?thesis
    using assms(1,3) sub by (simp add: best_of_def desc_take)
qed

lemma best_of_compute_results:
  assumes "valid_argsort argsort" and "scorable s q"
  shows "best_of (scored_docs sim s q) (length (compute_results sim argsort s q k))
           (compute_results sim argsort s q k)"
proof -
  let ?R = "full_ranking sim argsort s q"
  obtain m where m: "slice_to k ?R = take m ?R" "m \<le> length ?R"
    using slice_to_take by blast
  have "best_of (scored_docs sim s q) m (take m ?R)"
    using desc_full_ranking [OF assms(1)] mset_full_ranking [OF assms] m(2)
    by (rule best_of_take)
  then show ?thesis using m by (simp add: compute_results_slice)
qed

lemma length_compute_results_nonneg:
  assumes "valid_argsort argsort" and "scorable s q" and "0 \<le> k"
  shows "length (compute_results sim argsort s q k) = min (nat k) (length (tfidf_matrix s))"
  using assms
  by (simp add: compute_results_slice length_slice_to_nonneg length_full_ranking)

lemma length_compute_results_neg:
  assumes "valid_argsort argsort" and "scorable s q" and "k < 0"
  shows "length (compute_results sim argsort s q k) = length (tfidf_matrix s) - nat (- k)"
  using assms
  by (simp add: compute_results_slice length_slice_to_neg length_full_ranking)

lemma desc_compute_results:
  "valid_argsort argsort \<Longrightarrow> desc (compute_results sim argsort s q k)"
  by (simp add: compute_results_slice desc_slice_to desc_full_ranking)

lemma distinct_ids_compute_results:
  assumes "valid_argsort argsort" and "distinct (doc_ids s)"
    and "list_all (\<lambda>i. i < length (doc_ids s)) (slice_to k (rev (argsort (scores sim s q))))"
  shows "distinct (map fst (compute_results sim argsort s q k))"
proof -
  let ?top = "slice_to k (rev (argsort (scores sim s q)))"
  have d: "distinct ?top"
    using assms(1) by (simp add: distinct_slice_to valid_argsort_def)
  have "inj_on (\<lambda>i. doc_ids s ! i) (set ?top)"
    using assms(2,3) by (auto simp: inj_on_def nth_eq_iff_index_eq list_all_iff)
  then have "distinct (map (\<lambda>i. doc_ids s ! i) ?top)"
    using d by (simp add: distinct_map)
  then show ?thesis by (simp add: compute_results_def comp_def)
qed

subsection \<open>The paths of \<open>retrieve_with_cache\<close> and of \<open>build_index\<close>\<close>

lemma retrieve_hit:
  "fmlookup (query_cache s) q = Some cached \<Longrightarrow>
     retrieve_with_cache sim argsort q k s = Inr (cached, s)"
  by (simp add: retrieve_with_cache_def)

lemma retrieve_miss:
  assumes "fmlookup (query_cache s) q = None" and "scorable s q" and "valid_argsort argsort"
  shows "retrieve_with_cache sim argsort q k s =
           Inr (compute_results sim argsort s q k,
                s\<lparr>query_cache := fmupd q (compute_results sim argsort s q k) (query_cache s),
                  scorer_calls := Suc (scorer_calls s)\<rparr>)"
proof -
  from assms(2) obtain row where row: "tfidf_vectorizer s q = Inr row"
    and ok: "shape_ok [row] (tfidf_matrix s)"
    and len: "length (doc_ids s) = length (tfidf_matrix s)"
    by (auto simp: scorable_def split: sum.splits)
  have sc: "scores sim s q = map (\<lambda>y. sim row y) (tfidf_matrix s)"
    by (simp add: scores_def row)
  have cs: "cosine_similarity sim [row] (tfidf_matrix s) = Inr [scores sim s q]"
    using ok by (simp add: cosine_similarity_def sc)
  have "list_all (\<lambda>i. i < length (doc_ids s) \<and> i < length (scores sim s q))
          (slice_to k (rev (argsort (scores sim s q))))"
    using top_in_range [OF assms(3), of _ k "scores sim s q"] len
    by (simp add: list_all_iff sc)
  then show ?thesis
    using assms(1) row cs
    by (simp add: retrieve_with_cache_def flatten_def pair_up_def compute_results_def Let_def)
qed

lemma retrieve_Inr_cases:
  assumes "retrieve_with_cache sim argsort q k s = Inr (r, s')"
  shows "(fmlookup (query_cache s) q = Some r \<and> s' = s) \<or>
         (fmlookup (query_cache s) q = None \<and>
          s' = s\<lparr>query_cache := fmupd q r (query_cache s),
                 scorer_calls := Suc (scorer_calls s)\<rparr>)"
  using assms
  by (auto simp: retrieve_with_cache_def Let_def split: option.splits sum.splits)

lemma retrieve_miss_result:
  assumes "retrieve_with_cache sim argsort q k s = Inr (r, s')"
    and "fmlookup (query_cache s) q = None"
  shows "r = compute_results sim argsort s q k \<and>
         list_all (\<lambda>i. i < length (doc_ids s)) (slice_to k (rev (argsort (scores sim s q)))) \<and>
         length (scores sim s q) = length (tfidf_matrix s)"
  using assms
  by (auto simp: retrieve_with_cache_def Let_def cosine_similarity_def flatten_def pair_up_def
      compute_results_def scores_def list_all_iff split: sum.splits if_splits)


subsection \<open>Two rankings of the same scored documents\<close>








subsection \<open>The examples\<close>

lemma demo_cat_1:
  "retrieve_with_cache exact_sim stable_argsort ''cat'' 1 demo_state =
     Inr ([(''d1'', 1)], demo_state_cat)"
  by (simp add: eval_defs)

lemma demo_dog_2:
  "retrieve_with_cache exact_sim stable_argsort ''dog'' 2 demo_state_cat =
     Inr ([(''d2'', 1), (''d1'', 0)],
          demo_state_cat\<lparr>query_cache :=
                           fmupd ''dog'' [(''d2'', 1), (''d1'', 0)] (query_cache demo_state_cat),
                         scorer_calls := 2\<rparr>)"
  by (simp add: eval_defs)

lemma demo_scorable: "scorable demo_state q"
  by (simp add: scorable_def shape_ok_def demo_state_def vec_cat_dog_def)

lemma demo_empty_cache: "fmlookup (query_cache demo_state) q = None"
  by (simp add: demo_state_def)

lemma demo_rebuild:
  "build_index fit_transform_cat_dog [(''d7'', ''dog''), (''d8'', ''cat'')] demo_state_cat =
     Inr rebuilt_state"
  by (simp add: build_index_def fit_transform_cat_dog_def rebuilt_state_def demo_state_cat_def
      demo_state_def)

lemma two_entry_argsort:
  assumes "valid_argsort argsort"
  shows "argsort [x, y] = [0, 1] \<or> argsort [x, y] = [1, 0]"
proof -
  have d: "distinct (argsort [x, y])" and s: "set (argsort [x, y]) = {0..<Suc (Suc 0)}"
    using assms by (simp_all add: valid_argsort_def)
  have "length (argsort [x, y]) = 2" using length_argsort [OF assms, of "[x, y]"] by simp
  then obtain u v where uv: "argsort [x, y] = [u, v]"
    by (metis (no_types, opaque_lifting) length_0_conv length_Suc_conv numeral_2_eq_2)
  have "{u, v} = {0, 1}" using s uv by (simp add: atLeast0_lessThan_Suc insert_commute)
  moreover have "u \<noteq> v" using d uv by simp
  ultimately have "(u = 0 \<and> v = 1) \<or> (u = 1 \<and> v = 0)" by (auto simp: doubleton_eq_iff)
  then show ?thesis using uv by auto
qed



section \<open>The claims\<close>

subsection \<open>C1: the cache key\<close>

text \<open>
  C1 says that the cache key is the normalized query text together with the scorer and k,
  so that no call receives a result computed for another k. In the code the key is
  \<^verbatim>\<open>query_text\<close> alone. On the corpus d1 = cat, d2 = dog, after
  \<^verbatim>\<open>retrieve_with_cache("cat", 1)\<close> the call \<^verbatim>\<open>retrieve_with_cache("cat", 2)\<close> returns the
  one-element list stored for k = 1, where a computation for k = 2 gives two elements.
\<close>

theorem cache_key_ignores_k_counterexample:
  "retrieve_with_cache exact_sim stable_argsort ''cat'' 1 demo_state =
     Inr ([(''d1'', 1)], demo_state_cat) \<and>
   retrieve_with_cache exact_sim stable_argsort ''cat'' 2 demo_state_cat =
     Inr ([(''d1'', 1)], demo_state_cat) \<and>
   fst (projr (retrieve_with_cache exact_sim stable_argsort ''cat'' 2 demo_state)) =
     [(''d1'', 1), (''d2'', 0)]"
  by (simp add: eval_defs)

text \<open>
  C1 as amended: the cache key is the query text alone, as passed. A call that returns
  leaves its result stored under the query text, adds no other key, and from then on every
  call with that text returns this result, whatever its k.
\<close>

theorem cache_key_is_query_text:
  "retrieve_with_cache sim argsort query_text k s = Inr (r, s') \<Longrightarrow>
     fmlookup (query_cache s') query_text = Some r \<and>
     fmdom (query_cache s') = finsert query_text (fmdom (query_cache s)) \<and>
     (\<forall>k'. retrieve_with_cache sim argsort query_text k' s' = Inr (r, s'))"
  by (drule retrieve_Inr_cases) (auto simp: retrieve_hit fmdomI)

theorem cache_key_is_query_text_witness:
  "retrieve_with_cache exact_sim stable_argsort ''cat'' 1 demo_state =
     Inr ([(''d1'', 1)], demo_state_cat) \<and>
   fmlookup (query_cache demo_state_cat) ''cat'' = Some [(''d1'', 1)] \<and>
   fmdom (query_cache demo_state_cat) = finsert ''cat'' (fmdom (query_cache demo_state)) \<and>
   retrieve_with_cache exact_sim stable_argsort ''cat'' 7 demo_state_cat =
     Inr ([(''d1'', 1)], demo_state_cat)"
  using cache_key_is_query_text [OF demo_cat_1] demo_cat_1 by simp

subsection \<open>C2: which documents are scored\<close>

text \<open>
  C2 says that only documents containing a query term are scored and returned, and that a
  query of out-of-vocabulary terms yields the empty result. The code computes the
  similarity against every row of the matrix and keeps the \<open>top_k\<close> best. On the corpus
  d1 = cat, d2 = dog the query \<^verbatim>\<open>zebra\<close>, which shares a term with no document, returns
  both documents with score 0; and the query \<^verbatim>\<open>cat\<close> with k = 2 returns d2, which does
  not contain it.
\<close>

theorem whole_corpus_scored_counterexample:
  "\<not> list_ex (shares_term [0, 0]) (tfidf_matrix demo_state) \<and>
   tfidf_vectorizer demo_state ''zebra'' = Inr [0, 0] \<and>
   retrieve_with_cache exact_sim stable_argsort ''zebra'' 10 demo_state =
     Inr ([(''d2'', 0), (''d1'', 0)],
          demo_state\<lparr>query_cache := fmupd ''zebra'' [(''d2'', 0), (''d1'', 0)] fmempty,
                     scorer_calls := 1\<rparr>) \<and>
   tfidf_vectorizer demo_state ''cat'' = Inr [1, 0] \<and>
   \<not> shares_term [1, 0] (tfidf_matrix demo_state ! 1) \<and>
   fst (projr (retrieve_with_cache exact_sim stable_argsort ''cat'' 2 demo_state)) =
     [(''d1'', 1), (''d2'', 0)]"
  by (simp add: eval_defs shares_term_def)

text \<open>
  C2 as amended: a call that misses the cache, with \<open>0 \<le> k\<close>, on a state that can score
  the query, raises no error, scores every document of the corpus, and returns (and
  stores) the \<open>min k N\<close> best of all \<open>N\<close> documents, whether or not they contain a query
  term: the result has \<open>min k N\<close> entries, each a document of the corpus with its score,
  in descending order of score, and no document left out scores higher than one returned.
  This holds of a query of out-of-vocabulary terms as of any other.
\<close>

theorem whole_corpus_scored:
  assumes "valid_argsort argsort"
    and "scorable s query_text" and "fmlookup (query_cache s) query_text = None"
    and "0 \<le> k"
  shows "\<exists>r s'. retrieve_with_cache sim argsort query_text k s = Inr (r, s') \<and>
           length (scored_docs sim s query_text) = length (tfidf_matrix s) \<and>
           best_of (scored_docs sim s query_text) (min (nat k) (length (tfidf_matrix s))) r \<and>
           fmlookup (query_cache s') query_text = Some r"
  using retrieve_miss [OF assms(3,2,1), of sim k]
    best_of_compute_results [OF assms(1,2), of sim k]
    length_compute_results_nonneg [OF assms(1,2,4), of sim]
    length_scored_docs [OF assms(2), of sim]
  by simp

theorem whole_corpus_scored_witness:
  "valid_argsort stable_argsort \<and> scorable demo_state ''zebra'' \<and>
   fmlookup (query_cache demo_state) ''zebra'' = None \<and> (0 :: int) \<le> 10 \<and>
   scored_docs exact_sim demo_state ''zebra'' = [(''d1'', 0), (''d2'', 0)] \<and>
   (\<exists>r s'. retrieve_with_cache exact_sim stable_argsort ''zebra'' 10 demo_state = Inr (r, s') \<and>
           best_of [(''d1'', 0), (''d2'', 0)] 2 r \<and>
           fmlookup (query_cache s') ''zebra'' = Some r)"
proof -
  have sd: "scored_docs exact_sim demo_state ''zebra'' = [(''d1'', 0), (''d2'', 0)]"
    by (simp add: scored_docs_def scores_def demo_state_def vec_cat_dog_def exact_sim_def
        normalize_def row_norm_def dot_def)
  have n: "length (tfidf_matrix demo_state) = 2" by (simp add: demo_state_def)
  show ?thesis
    using whole_corpus_scored [where query_text = "''zebra''" and k = 10 and sim = exact_sim,
        OF stable_argsort_valid demo_scorable demo_empty_cache]
      stable_argsort_valid demo_scorable [of "''zebra''"] demo_empty_cache [of "''zebra''"]
    by (simp add: sd n)
qed

subsection \<open>C3: the order of a ranked result\<close>

text \<open>
  C3 says that every ranked result is in descending order of score with equal scores in
  ascending order of doc_id. The code reverses the argsort of the scores and never looks at
  the identifiers. On the corpus d1 = cat, d2 = cat both documents score 1 for the query
  \<^verbatim>\<open>cat\<close>, and d2 comes before d1.
\<close>

theorem tie_order_counterexample:
  "retrieve_with_cache exact_sim stable_argsort ''cat'' 2 twin_state =
     Inr ([(''d2'', 1), (''d1'', 1)],
          twin_state\<lparr>query_cache := fmupd ''cat'' [(''d2'', 1), (''d1'', 1)] fmempty,
                     scorer_calls := 1\<rparr>) \<and>
   \<not> ranked_order [(''d2'', 1), (''d1'', 1)]"
  by (simp add: eval_defs ranked_order_def)

text \<open>
  The refutation does not rest on the order this argsort gives the tie: whatever a valid
  argsort does with two equal scores, the result is out of order on this corpus or on the
  same corpus with the two identifiers exchanged.
\<close>

lemma tie_order_any_argsort:
  assumes "valid_argsort argsort"
  shows "\<not> (ranked_order (fst (projr (retrieve_with_cache exact_sim argsort ''cat'' 2 twin_state))) \<and>
            ranked_order (fst (projr (retrieve_with_cache exact_sim argsort ''cat'' 2
                                       (twin_state\<lparr>doc_ids := [''d2'', ''d1'']\<rparr>)))))"
  using two_entry_argsort [OF assms, of 1 1]
  by (auto simp: retrieve_with_cache_def cosine_similarity_def shape_ok_def exact_sim_def
      normalize_def row_norm_def dot_def flatten_def slice_to_def pair_up_def twin_state_def
      vec_cat_def ranked_order_def)

text \<open>
  C3 as amended: every ranked result that retrieval computes is in descending order of
  score, for every query and k, and so is every result served from a cache whose entries
  are; a call keeps the cache that way. Nothing is promised about the order of documents
  with equal scores.
\<close>

theorem results_descending_by_score:
  assumes "valid_argsort argsort" and "cache_desc s"
    and "retrieve_with_cache sim argsort query_text k s = Inr (r, s')"
  shows "desc r \<and> cache_desc s'"
proof -
  from retrieve_Inr_cases [OF assms(3)]
  show ?thesis
  proof (elim disjE conjE)
    assume "fmlookup (query_cache s) query_text = Some r" and "s' = s"
    then show ?thesis using assms(2) by (auto simp: cache_desc_def)
  next
    assume miss: "fmlookup (query_cache s) query_text = None"
      and s': "s' = s\<lparr>query_cache := fmupd query_text r (query_cache s),
                       scorer_calls := Suc (scorer_calls s)\<rparr>"
    have "desc r"
      using retrieve_miss_result [OF assms(3) miss] desc_compute_results [OF assms(1)] by simp
    then show ?thesis using assms(2) s' by (auto simp: cache_desc_def)
  qed
qed

theorem results_descending_by_score_witness:
  "valid_argsort stable_argsort \<and> cache_desc demo_state_cat \<and>
   retrieve_with_cache exact_sim stable_argsort ''dog'' 2 demo_state_cat =
     Inr ([(''d2'', 1), (''d1'', 0)],
          demo_state_cat\<lparr>query_cache :=
                           fmupd ''dog'' [(''d2'', 1), (''d1'', 0)] (query_cache demo_state_cat),
                         scorer_calls := 2\<rparr>) \<and>
   desc [(''d2'', 1), (''d1'', 0)] \<and> \<not> desc [(''d1'', 0), (''d2'', 1)] \<and>
   cache_desc (demo_state_cat\<lparr>query_cache :=
                           fmupd ''dog'' [(''d2'', 1), (''d1'', 0)] (query_cache demo_state_cat),
                         scorer_calls := 2\<rparr>)"
proof -
  have c: "cache_desc demo_state_cat"
    by (simp add: cache_desc_def demo_state_cat_def demo_state_def desc_def)
  have n: "\<not> desc [(''d1'', 0), (''d2'', 1)]" by (simp add: desc_def)
  show ?thesis
    using results_descending_by_score [OF stable_argsort_valid c demo_dog_2]
      stable_argsort_valid c demo_dog_2 n
    by simp
qed

subsection \<open>C4: k = 0 and negative k\<close>

text \<open>
  C4 says that a call with k = 0 or a negative k fails with an InputError. The code does
  not test \<open>top_k\<close>; it only slices with it. With k = 0 the call returns the empty list and
  stores it; with k = -1 on a corpus of two documents it returns the best one.
\<close>

theorem nonpositive_k_counterexample:
  "retrieve_with_cache exact_sim stable_argsort ''cat'' 0 demo_state =
     Inr ([], demo_state\<lparr>query_cache := fmupd ''cat'' [] fmempty, scorer_calls := 1\<rparr>) \<and>
   retrieve_with_cache exact_sim stable_argsort ''cat'' (- 1) demo_state =
     Inr ([(''d1'', 1)], demo_state_cat)"
  by (simp add: eval_defs)

text \<open>
  C4 as amended: a call with \<open>k \<le> 0\<close> that misses the cache, on a state that can score the
  query, raises no error: it returns, and stores under the query text, the empty list when
  k = 0 and the \<open>N - |k|\<close> best of the \<open>N\<close> documents (none when \<open>|k| \<ge> N\<close>) when k is
  negative; best as in C2: that many documents of the corpus with their scores, in
  descending order, no document left out scoring higher than one returned.
\<close>

theorem nonpositive_k_returns_slice:
  assumes "valid_argsort argsort"
    and "scorable s query_text" and "fmlookup (query_cache s) query_text = None"
    and "k \<le> 0"
  shows "\<exists>r s'. retrieve_with_cache sim argsort query_text k s = Inr (r, s') \<and>
           fmlookup (query_cache s') query_text = Some r \<and>
           best_of (scored_docs sim s query_text)
             (if k = 0 then 0 else length (tfidf_matrix s) - nat (- k)) r"
proof (cases "k = 0")
  case True
  then show ?thesis
    using retrieve_miss [OF assms(3,2,1), of sim k]
      best_of_compute_results [OF assms(1,2), of sim k]
      length_compute_results_nonneg [OF assms(1,2), of k sim]
    by simp
next
  case False
  with assms(4) have "k < 0" by simp
  then show ?thesis
    using retrieve_miss [OF assms(3,2,1), of sim k]
      best_of_compute_results [OF assms(1,2), of sim k]
      length_compute_results_neg [OF assms(1,2), of k sim]
    by simp
qed

theorem nonpositive_k_returns_slice_witness:
  "valid_argsort stable_argsort \<and> scorable demo_state ''dog'' \<and>
   fmlookup (query_cache demo_state) ''dog'' = None \<and> (- 1 :: int) \<le> 0 \<and>
   scored_docs exact_sim demo_state ''dog'' = [(''d1'', 0), (''d2'', 1)] \<and>
   (\<exists>r s'. retrieve_with_cache exact_sim stable_argsort ''dog'' (- 1) demo_state = Inr (r, s') \<and>
           fmlookup (query_cache s') ''dog'' = Some r \<and>
           best_of [(''d1'', 0), (''d2'', 1)] 1 r)"
proof -
  have sd: "scored_docs exact_sim demo_state ''dog'' = [(''d1'', 0), (''d2'', 1)]"
    by (simp add: scored_docs_def scores_def demo_state_def vec_cat_dog_def exact_sim_def
        normalize_def row_norm_def dot_def)
  have n: "length (tfidf_matrix demo_state) = 2" by (simp add: demo_state_def)
  show ?thesis
    using nonpositive_k_returns_slice
        [where query_text = "''dog''" and k = "- 1" and sim = exact_sim,
         OF stable_argsort_valid demo_scorable demo_empty_cache]
      stable_argsort_valid demo_scorable [of "''dog''"] demo_empty_cache [of "''dog''"]
    by (simp add: sd n)
qed

subsection \<open>C5: the cache after a rebuild\<close>

text \<open>
  C5 says that a successful rebuild of the index invalidates every cached key. The cell
  that builds the index does not touch \<^verbatim>\<open>query_cache\<close>, and \<open>retrieve_with_cache\<close> does not
  know which index an entry was computed on. After \<^verbatim>\<open>retrieve_with_cache("cat", 1)\<close> on
  the corpus d1 = cat, d2 = dog and a rebuild from the corpus d7 = dog, d8 = cat, the same
  call still returns d1, a document of the old corpus, where a computation on the new index
  gives d8.
\<close>

theorem rebuild_keeps_cache_counterexample:
  "build_index fit_transform_cat_dog [(''d7'', ''dog''), (''d8'', ''cat'')] demo_state_cat =
     Inr rebuilt_state \<and>
   retrieve_with_cache exact_sim stable_argsort ''cat'' 1 rebuilt_state =
     Inr ([(''d1'', 1)], rebuilt_state) \<and>
   fst (projr (retrieve_with_cache exact_sim stable_argsort ''cat'' 1
                 (rebuilt_state\<lparr>query_cache := fmempty\<rparr>))) =
     [(''d8'', 1)]"
  by (simp add: eval_defs build_index_def fit_transform_cat_dog_def rebuilt_state_def)

text \<open>
  C5 as amended: a successful rebuild of the index leaves the cache as it is, and a request
  for a key cached before the rebuild is served from the old entry, without scoring
  against the new index.
\<close>

theorem rebuild_keeps_cache:
  assumes "build_index fit_transform corpus s = Inr s'"
    and "fmlookup (query_cache s) query_text = Some cached"
  shows "query_cache s' = query_cache s \<and> scorer_calls s' = scorer_calls s \<and>
         retrieve_with_cache sim argsort query_text k s' = Inr (cached, s')"
proof -
  have "query_cache s' = query_cache s \<and> scorer_calls s' = scorer_calls s"
    using assms(1) by (auto simp: build_index_def Let_def split: sum.splits prod.splits)
  then show ?thesis using assms(2) by (simp add: retrieve_hit)
qed

theorem rebuild_keeps_cache_witness:
  "build_index fit_transform_cat_dog [(''d7'', ''dog''), (''d8'', ''cat'')] demo_state_cat =
     Inr rebuilt_state \<and>
   fmlookup (query_cache demo_state_cat) ''cat'' = Some [(''d1'', 1)] \<and>
   query_cache rebuilt_state = query_cache demo_state_cat \<and>
   retrieve_with_cache exact_sim stable_argsort ''cat'' 5 rebuilt_state =
     Inr ([(''d1'', 1)], rebuilt_state)"
proof -
  have c: "fmlookup (query_cache demo_state_cat) ''cat'' = Some [(''d1'', 1)]"
    by (simp add: demo_state_cat_def)
  show ?thesis
    using rebuild_keeps_cache
        [OF demo_rebuild c, where sim = exact_sim and argsort = stable_argsort and k = 5]
      demo_rebuild c
    by simp
qed

subsection \<open>C6: a repeated query\<close>



subsection \<open>C7: the order of the corpus\<close>


text \<open>
  Whatever a valid argsort does with the two equal scores, the two indexes give different
  results: the score arrays are the same, so the same position is picked, and it holds
  different documents.
\<close>

lemma permuted_twin_any_argsort:
  assumes "valid_argsort argsort"
  shows "fst (projr (retrieve_with_cache exact_sim argsort ''cat'' 1 twin_state)) \<noteq>
         fst (projr (retrieve_with_cache exact_sim argsort ''cat'' 1
                       (twin_state\<lparr>doc_ids := [''d2'', ''d1'']\<rparr>)))"
  using two_entry_argsort [OF assms, of 1 1]
  by (auto simp: retrieve_with_cache_def cosine_similarity_def shape_ok_def exact_sim_def
      normalize_def row_norm_def dot_def flatten_def slice_to_def pair_up_def twin_state_def
      vec_cat_def)



subsection \<open>C8: concurrent callers\<close>

text \<open>
  C8 is about several callers of \<open>retrieve_with_cache\<close> running at once. The notebook
  runs one call at a time and has no lock, thread or task; the model is sequential, and the
  claim is not stated in it.
\<close>

subsection \<open>C9: what a call does to the cache\<close>

text \<open>
  C9: a call that hits leaves the cache as it is; a call that misses adds exactly one
  entry, under the queried text; no call removes or overwrites an entry, so every stored
  key keeps its value and the number of entries does not decrease.
\<close>

theorem cache_frame:
  assumes "retrieve_with_cache sim argsort query_text k s = Inr (r, s')"
  shows "(query_text |\<in>| fmdom (query_cache s) \<longrightarrow> query_cache s' = query_cache s) \<and>
         (query_text |\<notin>| fmdom (query_cache s) \<longrightarrow>
            query_cache s' = fmupd query_text r (query_cache s) \<and>
            fcard (fmdom (query_cache s')) = Suc (fcard (fmdom (query_cache s)))) \<and>
         (\<forall>key v. fmlookup (query_cache s) key = Some v \<longrightarrow>
                    fmlookup (query_cache s') key = Some v) \<and>
         fcard (fmdom (query_cache s)) \<le> fcard (fmdom (query_cache s'))"
  using retrieve_Inr_cases [OF assms]
  by (auto simp: fmlookup_dom_iff fcard_finsert_disjoint fmdom_notI)

theorem cache_frame_witness:
  "retrieve_with_cache exact_sim stable_argsort ''cat'' 1 demo_state =
     Inr ([(''d1'', 1)], demo_state_cat) \<and>
   ''cat'' |\<notin>| fmdom (query_cache demo_state) \<and>
   query_cache demo_state_cat = fmupd ''cat'' [(''d1'', 1)] (query_cache demo_state) \<and>
   fcard (fmdom (query_cache demo_state_cat)) = Suc (fcard (fmdom (query_cache demo_state)))"
proof -
  have absent: "''cat'' |\<notin>| fmdom (query_cache demo_state)"
    by (simp add: demo_state_def)
  show ?thesis
    using cache_frame [OF demo_cat_1] demo_cat_1 absent by blast
qed

subsection \<open>C10: length of the result and distinct identifiers\<close>

text \<open>
  C10 says that every call with \<open>0 \<le> top_k\<close> on a corpus with pairwise distinct doc_ids
  returns \<open>min top_k N\<close> entries, \<open>N\<close> being the corpus size. A call that hits the cache
  returns what an earlier call stored: after \<^verbatim>\<open>retrieve_with_cache("cat", 1)\<close> on the
  corpus d1 = cat, d2 = dog, the call with \<open>top_k = 2\<close> returns one entry, not two.
\<close>

theorem result_length_on_hit_counterexample:
  "distinct (doc_ids demo_state_cat) \<and> length (tfidf_matrix demo_state_cat) = 2 \<and>
   retrieve_with_cache exact_sim stable_argsort ''cat'' 2 demo_state_cat =
     Inr ([(''d1'', 1)], demo_state_cat) \<and>
   length [(''d1'', 1 :: real)] \<noteq> min 2 (length (tfidf_matrix demo_state_cat))"
  by (simp add: eval_defs)

text \<open>
  C10 as amended: on a corpus whose doc_ids are pairwise distinct and a cache in whose
  entries no doc_id occurs twice (the empty cache is one, and calls keep it so), every
  call of \<open>retrieve_with_cache\<close> with \<open>0 \<le> top_k\<close> that returns, hit or miss, returns a
  list in which no doc_id occurs twice; when the call misses the cache the list has length
  \<open>min top_k N\<close>. A call on a state that can score the query returns.
\<close>

theorem result_distinct_ids_and_length:
  assumes "valid_argsort argsort" and "distinct (doc_ids s)" and "cache_distinct s"
    and "0 \<le> top_k"
  shows "(\<forall>r s'. retrieve_with_cache sim argsort query_text top_k s = Inr (r, s') \<longrightarrow>
            distinct (map fst r) \<and> cache_distinct s' \<and>
            (fmlookup (query_cache s) query_text = None \<longrightarrow>
               length r = min (nat top_k) (length (tfidf_matrix s)))) \<and>
         (scorable s query_text \<longrightarrow>
            (\<exists>r s'. retrieve_with_cache sim argsort query_text top_k s = Inr (r, s')))"
proof (intro conjI allI impI)
  fix r s'
  assume ret: "retrieve_with_cache sim argsort query_text top_k s = Inr (r, s')"
  from retrieve_Inr_cases [OF ret]
  have "distinct (map fst r) \<and> cache_distinct s'"
  proof (elim disjE conjE)
    assume "fmlookup (query_cache s) query_text = Some r" and "s' = s"
    then show ?thesis using assms(3) by (auto simp: cache_distinct_def)
  next
    assume miss: "fmlookup (query_cache s) query_text = None"
      and s': "s' = s\<lparr>query_cache := fmupd query_text r (query_cache s),
                       scorer_calls := Suc (scorer_calls s)\<rparr>"
    have "distinct (map fst r)"
      using retrieve_miss_result [OF ret miss]
        distinct_ids_compute_results [OF assms(1,2), of top_k sim query_text]
      by simp
    then show ?thesis using assms(3) s' by (auto simp: cache_distinct_def)
  qed
  then show "distinct (map fst r)" and "cache_distinct s'" by simp_all
  show "length r = min (nat top_k) (length (tfidf_matrix s))"
    if miss: "fmlookup (query_cache s) query_text = None"
  proof -
    from retrieve_miss_result [OF ret miss]
    have "r = compute_results sim argsort s query_text top_k"
      and "length (scores sim s query_text) = length (tfidf_matrix s)" by simp_all
    then show ?thesis
      using assms(4) length_argsort [OF assms(1), of "scores sim s query_text"]
      by (simp add: compute_results_def length_slice_to_nonneg)
  qed
next
  assume sc: "scorable s query_text"
  show "\<exists>r s'. retrieve_with_cache sim argsort query_text top_k s = Inr (r, s')"
  proof (cases "fmlookup (query_cache s) query_text")
    case None
    then show ?thesis using retrieve_miss [OF None sc assms(1)] by blast
  next
    case (Some cached)
    then show ?thesis using retrieve_hit by blast
  qed
qed

theorem result_distinct_ids_and_length_witness:
  "valid_argsort stable_argsort \<and> distinct (doc_ids demo_state_cat) \<and>
   cache_distinct demo_state_cat \<and> (0 :: int) \<le> 2 \<and>
   fmlookup (query_cache demo_state_cat) ''dog'' = None \<and>
   retrieve_with_cache exact_sim stable_argsort ''dog'' 2 demo_state_cat =
     Inr ([(''d2'', 1), (''d1'', 0)],
          demo_state_cat\<lparr>query_cache :=
                           fmupd ''dog'' [(''d2'', 1), (''d1'', 0)] (query_cache demo_state_cat),
                         scorer_calls := 2\<rparr>) \<and>
   distinct (map fst [(''d2'', 1 :: real), (''d1'', 0)]) \<and>
   length [(''d2'', 1 :: real), (''d1'', 0)] = min (nat 2) (length (tfidf_matrix demo_state_cat)) \<and>
   cache_distinct (demo_state_cat\<lparr>query_cache :=
                           fmupd ''dog'' [(''d2'', 1), (''d1'', 0)] (query_cache demo_state_cat),
                         scorer_calls := 2\<rparr>)"
proof -
  have d: "distinct (doc_ids demo_state_cat)"
    by (simp add: demo_state_cat_def demo_state_def)
  have c: "cache_distinct demo_state_cat"
    by (simp add: cache_distinct_def demo_state_cat_def demo_state_def)
  have m: "fmlookup (query_cache demo_state_cat) ''dog'' = None"
    by (simp add: demo_state_cat_def demo_state_def)
  have k: "(0 :: int) \<le> 2" by simp
  from result_distinct_ids_and_length
         [OF stable_argsort_valid d c k, where sim = exact_sim and query_text = "''dog''"]
  have "distinct (map fst [(''d2'', 1 :: real), (''d1'', 0)]) \<and>
        cache_distinct (demo_state_cat\<lparr>query_cache :=
                           fmupd ''dog'' [(''d2'', 1), (''d1'', 0)] (query_cache demo_state_cat),
                         scorer_calls := 2\<rparr>) \<and>
        length [(''d2'', 1 :: real), (''d1'', 0)] =
          min (nat 2) (length (tfidf_matrix demo_state_cat))"
    using demo_dog_2 m by blast
  then show ?thesis
    using stable_argsort_valid d c m demo_dog_2 by simp
qed

end
